theory Spec2Isabelle
  imports Complex_Main
begin

section \<open>Numbers\<close>

text \<open>
  A JavaScript number is an IEEE 754 double. A finite number is modelled by the real number
  it denotes, and \<open>rnd\<close> rounds a real number to the nearest double, ties to the even
  significand: the significand has 53 bits, so a number of binary exponent \<open>e\<close> is rounded to
  a multiple of \<open>2 powr (e - 52)\<close>. The exponent range is taken as unbounded (no overflow
  and no subnormal numbers; pointer coordinates are far from both).
\<close>

definition round_even :: "real \<Rightarrow> int" where
  "round_even y =
     (let f = \<lfloor>y\<rfloor>; d = y - of_int f
      in if d < 1 / 2 then f else if 1 / 2 < d then f + 1 else if even f then f else f + 1)"

definition rnd :: "real \<Rightarrow> real" where
  "rnd x =
     (if x = 0 then 0
      else (let u = 2 powr of_int (\<lfloor>log 2 \<bar>x\<bar>\<rfloor> - 52)
            in of_int (round_even (x / u)) * u))"

text \<open>
  The arithmetic of the pointer handlers on doubles: every operation returns the rounded
  exact result. \<open>fpow2 a\<close> is \<open>Math.pow(a, 2)\<close> and \<open>fsqrt a\<close> is \<open>Math.sqrt(a)\<close>; the language
  leaves their precision to the implementation, and the model takes the correctly rounded
  result (which is the exact one whenever that is a double).
\<close>

definition fadd :: "real \<Rightarrow> real \<Rightarrow> real" where
  "fadd a b = rnd (a + b)"

definition fsub :: "real \<Rightarrow> real \<Rightarrow> real" where
  "fsub a b = rnd (a - b)"

definition fdiv :: "real \<Rightarrow> real \<Rightarrow> real" where
  "fdiv a b = rnd (a / b)"

definition fpow2 :: "real \<Rightarrow> real" where
  "fpow2 a = rnd (a\<^sup>2)"

definition fsqrt :: "real \<Rightarrow> real" where
  "fsqrt a = rnd (sqrt a)"

text \<open>
  The frame compositor divides by the displayed size of the video element, which can be
  zero; the results of that division and of the arithmetic on it are modelled by \<open>jsnum\<close>,
  a real number or one of the three non-finite values of a JavaScript number. The finite
  quotients and products of the compositor are kept exact.
\<close>

datatype jsnum = Fin real | PInf | NInf | NaN

text \<open>
  \<open>a / b\<close> for finite operands, where a zero divisor is the positive zero that the
  integer 0 converts to: \<open>x / 0\<close> is \<open>Infinity\<close>, \<open>-Infinity\<close> or \<open>NaN\<close>.
\<close>

definition js_div :: "real \<Rightarrow> real \<Rightarrow> jsnum" where
  "js_div a b =
     (if b \<noteq> 0 then Fin (a / b)
      else if 0 < a then PInf
      else if a < 0 then NInf
      else NaN)"

text \<open>\<open>a * k\<close> for a finite \<open>a\<close> and a factor that may be non-finite.\<close>

fun js_mul :: "real \<Rightarrow> jsnum \<Rightarrow> jsnum" where
  "js_mul a (Fin k) = Fin (a * k)"
| "js_mul a PInf = (if 0 < a then PInf else if a < 0 then NInf else NaN)"
| "js_mul a NInf = (if 0 < a then NInf else if a < 0 then PInf else NaN)"
| "js_mul a NaN = NaN"

text \<open>\<open>Math.max(a, b)\<close>: \<open>NaN\<close> if either argument is \<open>NaN\<close>.\<close>

fun js_max :: "jsnum \<Rightarrow> jsnum \<Rightarrow> jsnum" where
  "js_max NaN _ = NaN"
| "js_max _ NaN = NaN"
| "js_max PInf _ = PInf"
| "js_max _ PInf = PInf"
| "js_max NInf b = b"
| "js_max a NInf = a"
| "js_max (Fin a) (Fin b) = Fin (max a b)"

fun is_finite :: "jsnum \<Rightarrow> bool" where
  "is_finite (Fin _) = True"
| "is_finite _ = False"


section \<open>The DOM values the component reads\<close>

text \<open>
  \<open>MouseEvent\<close>: the two fields the handlers read. \<open>DOMRect\<close>: the result of
  \<open>containerRef.current?.getBoundingClientRect()\<close>, of which \<open>left\<close> and \<open>top\<close> are
  read; it is passed to a handler as an option, \<open>None\<close> when the container is not mounted.
\<close>

record MouseEvent =
  clientX :: real
  clientY :: real

record DOMRect =
  rect_left :: real
  rect_top :: real

text \<open>
  The video element: its native size (\<open>unsigned long\<close>), its displayed size (\<open>long\<close>,
  never negative for a layout box) and its \<open>readyState\<close> (0 is \<open>HAVE_NOTHING\<close>: no
  frame is available and playback has not started). The component never reads
  \<open>readyState\<close>.
\<close>

record HTMLVideoElement =
  videoWidth :: nat
  videoHeight :: nat
  offsetWidth :: nat
  offsetHeight :: nat
  readyState :: nat


section \<open>LiveScreenPreview with circles (src/components/LiveScreenPreview.tsx)\<close>

text \<open>
  \<open>Point\<close> is the type of \<open>drawStart\<close>, \<open>{ x: number; y: number }\<close>; \<open>DrawingCircle\<close> is
  the interface of that name. The fields \<open>x\<close> and \<open>y\<close> are named \<open>px\<close>, \<open>py\<close> and
  \<open>cx\<close>, \<open>cy\<close> here.
\<close>

record Point =
  px :: real
  py :: real

record DrawingCircle =
  cx :: real
  cy :: real
  radius :: real

text \<open>
  The component's state hooks. \<open>stream\<close> is \<open>MediaStream | null\<close>; a stream is
  identified by a number.
\<close>

record preview =
  isSharing :: bool
  stream :: "nat option"
  isDrawing :: bool
  drawStart :: "Point option"
  circles :: "DrawingCircle list"
  currentCircle :: "DrawingCircle option"
  drawMode :: bool

definition initial :: preview where
  "initial = \<lparr> isSharing = False, stream = None, isDrawing = False, drawStart = None,
               circles = [], currentCircle = None, drawMode = False \<rparr>"

definition handleMouseDown :: "preview \<Rightarrow> MouseEvent \<Rightarrow> DOMRect option \<Rightarrow> preview" where
  "handleMouseDown s e rect =
     (if \<not> drawMode s \<or> \<not> isSharing s then s
      else case rect of
        None \<Rightarrow> s
      | Some r \<Rightarrow>
          s\<lparr> drawStart := Some \<lparr> px = fsub (clientX e) (rect_left r),
                                  py = fsub (clientY e) (rect_top r) \<rparr>,
             isDrawing := True \<rparr>)"

definition handleMouseMove :: "preview \<Rightarrow> MouseEvent \<Rightarrow> DOMRect option \<Rightarrow> preview" where
  "handleMouseMove s e rect =
     (if \<not> isDrawing s then s
      else case drawStart s of
        None \<Rightarrow> s
      | Some start \<Rightarrow>
         (case rect of
            None \<Rightarrow> s
          | Some r \<Rightarrow>
             (let x = fsub (clientX e) (rect_left r);
                  y = fsub (clientY e) (rect_top r);
                  centerX = fdiv (fadd (px start) x) 2;
                  centerY = fdiv (fadd (py start) y) 2;
                  radius = fdiv (fsqrt (fadd (fpow2 (fsub x (px start)))
                                             (fpow2 (fsub y (py start))))) 2
              in s\<lparr> currentCircle := Some \<lparr> cx = centerX, cy = centerY, radius = radius \<rparr> \<rparr>)))"

definition handleMouseUp :: "preview \<Rightarrow> preview" where
  "handleMouseUp s =
     (let s1 = (case currentCircle s of
                  None \<Rightarrow> s
                | Some c \<Rightarrow> if radius c > 10 then s\<lparr> circles := circles s @ [c] \<rparr> else s)
      in s1\<lparr> isDrawing := False, drawStart := None, currentCircle := None \<rparr>)"


text \<open>
  \<open>startScreenShare\<close>: the argument is the outcome of \<open>getDisplayMedia\<close>, \<open>Some\<close> stream
  when permission is granted, \<open>None\<close> when the request is rejected (a toast is shown and no
  state changes). \<open>onended\<close> is the handler registered on the stream's video track.
\<close>

definition startScreenShare :: "preview \<Rightarrow> nat option \<Rightarrow> preview" where
  "startScreenShare s granted =
     (case granted of
        Some mediaStream \<Rightarrow> s\<lparr> stream := Some mediaStream, isSharing := True \<rparr>
      | None \<Rightarrow> s)"

definition onended :: "preview \<Rightarrow> preview" where
  "onended s = s\<lparr> isSharing := False, stream := None, circles := [] \<rparr>"

definition stopSharing :: "preview \<Rightarrow> preview" where
  "stopSharing s =
     (let s1 = (if stream s \<noteq> None then s\<lparr> stream := None \<rparr> else s)
      in s1\<lparr> isSharing := False, circles := [] \<rparr>)"

definition clearCircles :: "preview \<Rightarrow> preview" where
  "clearCircles s = s\<lparr> circles := [] \<rparr>"

definition toggleDrawMode :: "preview \<Rightarrow> preview" where
  "toggleDrawMode s = s\<lparr> drawMode := \<not> drawMode s \<rparr>"


subsection \<open>The frame compositor\<close>

text \<open>
  The calls made on the 2D context of the offscreen canvas, in order. \<open>Arc x y r\<close> is
  \<open>ctx.arc(x, y, r, 0, 2 * Math.PI)\<close>. A \<open>canvas\<close> is the offscreen canvas after these
  calls: its size and the calls made on it, which determine the bitmap that
  \<open>toDataURL("image/png")\<close> encodes.
\<close>

datatype cmd =
    DrawImage
  | StrokeStyle string
  | LineWidth nat
  | SetLineDash "nat list"
  | LineCap string
  | LineJoin string
  | BeginPath
  | Arc jsnum jsnum jsnum
  | MoveTo jsnum jsnum
  | LineTo jsnum jsnum
  | Stroke

record canvas =
  width :: nat
  height :: nat
  calls :: "cmd list"

text \<open>The body of \<open>circles.forEach\<close> in \<open>captureScreen\<close>.\<close>

definition strokeCircle :: "jsnum \<Rightarrow> jsnum \<Rightarrow> DrawingCircle \<Rightarrow> cmd list" where
  "strokeCircle scaleX scaleY circle =
     [BeginPath,
      Arc (js_mul (cx circle) scaleX) (js_mul (cy circle) scaleY)
          (js_mul (radius circle) (js_max scaleX scaleY)),
      Stroke]"

text \<open>
  \<open>captureScreen\<close>: \<open>videoRef\<close> is \<open>videoRef.current\<close>, \<open>has_ctx\<close> says whether
  \<open>canvas.getContext("2d")\<close> returned a context. The result is \<open>None\<close> when the function
  returns without calling \<open>onCapture\<close>, and \<open>Some c\<close> when \<open>onCapture\<close> is called with the
  data URL of the canvas \<open>c\<close>.
\<close>

definition captureScreen :: "preview \<Rightarrow> HTMLVideoElement option \<Rightarrow> bool \<Rightarrow> canvas option" where
  "captureScreen s videoRef has_ctx =
     (case videoRef of
        None \<Rightarrow> None
      | Some video \<Rightarrow>
          if stream s = None then None
          else if \<not> has_ctx then None
          else Some \<lparr> width = videoWidth video, height = videoHeight video,
                 calls = DrawImage #
                   (if length (circles s) > 0 then
                      (let scaleX = js_div (real (videoWidth video)) (real (offsetWidth video));
                           scaleY = js_div (real (videoHeight video)) (real (offsetHeight video))
                       in [StrokeStyle ''#00d4ff'', LineWidth 4, SetLineDash [8, 8]] @
                          concat (map (strokeCircle scaleX scaleY) (circles s)))
                    else []) \<rparr>)"


subsection \<open>The component as an event-driven state machine\<close>

text \<open>
  One event per handler invocation. The draw-mode, erase, capture and stop buttons are
  rendered only while \<open>isSharing\<close> holds, so their events have no effect otherwise; the mouse
  handlers are attached to the container, which is always rendered, and \<open>MouseLeave\<close> is
  bound to \<open>handleMouseUp\<close>. \<open>Capture\<close> changes no state.
\<close>

datatype event =
    StartGranted nat
  | StartDenied
  | StreamEnded
  | MouseDown MouseEvent "DOMRect option"
  | MouseMove MouseEvent "DOMRect option"
  | MouseUp
  | MouseLeave
  | ToggleDrawMode
  | ClearCircles
  | Capture
  | StopSharing

fun step :: "preview \<Rightarrow> event \<Rightarrow> preview" where
  "step s (StartGranted n) = startScreenShare s (Some n)"
| "step s StartDenied = startScreenShare s None"
| "step s StreamEnded = onended s"
| "step s (MouseDown e rect) = handleMouseDown s e rect"
| "step s (MouseMove e rect) = handleMouseMove s e rect"
| "step s MouseUp = handleMouseUp s"
| "step s MouseLeave = handleMouseUp s"
| "step s ToggleDrawMode = (if isSharing s then toggleDrawMode s else s)"
| "step s ClearCircles = (if isSharing s \<and> length (circles s) > 0 then clearCircles s else s)"
| "step s Capture = s"
| "step s StopSharing = (if isSharing s then stopSharing s else s)"

definition run :: "preview \<Rightarrow> event list \<Rightarrow> preview" where
  "run s es = foldl step s es"


section \<open>LiveScreenPreview with freehand paths (the second variant of the component)\<close>

text \<open>
  The variant that records freehand paths has the same hooks with \<open>paths\<close> and
  \<open>currentPath\<close> in place of the circles; a \<open>DrawingPath\<close> is \<open>{ points: Point[] }\<close>, modelled
  by its list of points. Names of this variant carry the suffix \<open>P\<close>.
\<close>

type_synonym DrawingPath = "Point list"

record previewP =
  isSharingP :: bool
  streamP :: "nat option"
  isDrawingP :: bool
  paths :: "DrawingPath list"
  currentPath :: "Point list"
  drawModeP :: bool

definition initialP :: previewP where
  "initialP = \<lparr> isSharingP = False, streamP = None, isDrawingP = False, paths = [],
                currentPath = [], drawModeP = False \<rparr>"

definition handleMouseDownP :: "previewP \<Rightarrow> MouseEvent \<Rightarrow> DOMRect option \<Rightarrow> previewP" where
  "handleMouseDownP s e rect =
     (if \<not> drawModeP s \<or> \<not> isSharingP s then s
      else case rect of
        None \<Rightarrow> s
      | Some r \<Rightarrow>
          s\<lparr> currentPath := [\<lparr> px = fsub (clientX e) (rect_left r),
                               py = fsub (clientY e) (rect_top r) \<rparr>],
             isDrawingP := True \<rparr>)"

definition handleMouseMoveP :: "previewP \<Rightarrow> MouseEvent \<Rightarrow> DOMRect option \<Rightarrow> previewP" where
  "handleMouseMoveP s e rect =
     (if \<not> isDrawingP s \<or> \<not> drawModeP s then s
      else case rect of
        None \<Rightarrow> s
      | Some r \<Rightarrow>
          s\<lparr> currentPath :=
               currentPath s @ [\<lparr> px = fsub (clientX e) (rect_left r),
                                  py = fsub (clientY e) (rect_top r) \<rparr>] \<rparr>)"

definition handleMouseUpP :: "previewP \<Rightarrow> previewP" where
  "handleMouseUpP s =
     (let s1 = (if length (currentPath s) > 1 then s\<lparr> paths := paths s @ [currentPath s] \<rparr> else s)
      in s1\<lparr> isDrawingP := False, currentPath := [] \<rparr>)"

definition startScreenShareP :: "previewP \<Rightarrow> nat option \<Rightarrow> previewP" where
  "startScreenShareP s granted =
     (case granted of
        Some mediaStream \<Rightarrow> s\<lparr> streamP := Some mediaStream, isSharingP := True \<rparr>
      | None \<Rightarrow> s)"

definition onendedP :: "previewP \<Rightarrow> previewP" where
  "onendedP s = s\<lparr> isSharingP := False, streamP := None, paths := [] \<rparr>"

definition stopSharingP :: "previewP \<Rightarrow> previewP" where
  "stopSharingP s =
     (let s1 = (if streamP s \<noteq> None then s\<lparr> streamP := None \<rparr> else s)
      in s1\<lparr> isSharingP := False, paths := [] \<rparr>)"

definition clearDrawings :: "previewP \<Rightarrow> previewP" where
  "clearDrawings s = s\<lparr> paths := [], currentPath := [] \<rparr>"

definition toggleDrawModeP :: "previewP \<Rightarrow> previewP" where
  "toggleDrawModeP s = s\<lparr> drawModeP := \<not> drawModeP s \<rparr>"

text \<open>
  The body of \<open>paths.forEach\<close> in \<open>captureScreen\<close>: a path of fewer than two points is
  skipped; otherwise \<open>moveTo\<close> the first point and \<open>lineTo\<close> each later one.
\<close>

definition strokePath :: "jsnum \<Rightarrow> jsnum \<Rightarrow> DrawingPath \<Rightarrow> cmd list" where
  "strokePath scaleX scaleY points =
     (if length points < 2 then []
      else [BeginPath, MoveTo (js_mul (px (hd points)) scaleX) (js_mul (py (hd points)) scaleY)] @
           map (\<lambda>p. LineTo (js_mul (px p) scaleX) (js_mul (py p) scaleY)) (tl points) @
           [Stroke])"

definition captureScreenP :: "previewP \<Rightarrow> HTMLVideoElement option \<Rightarrow> bool \<Rightarrow> canvas option" where
  "captureScreenP s videoRef has_ctx =
     (case videoRef of
        None \<Rightarrow> None
      | Some video \<Rightarrow>
          if streamP s = None then None
          else if \<not> has_ctx then None
          else Some \<lparr> width = videoWidth video, height = videoHeight video,
                 calls = DrawImage #
                   (if length (paths s) > 0 then
                      (let scaleX = js_div (real (videoWidth video)) (real (offsetWidth video));
                           scaleY = js_div (real (videoHeight video)) (real (offsetHeight video))
                       in [StrokeStyle ''#00d4ff'', LineWidth 4, LineCap ''round'', LineJoin ''round''] @
                          concat (map (strokePath scaleX scaleY) (paths s)))
                    else []) \<rparr>)"

datatype eventP =
    StartGrantedP nat
  | StartDeniedP
  | StreamEndedP
  | MouseDownP MouseEvent "DOMRect option"
  | MouseMoveP MouseEvent "DOMRect option"
  | MouseUpP
  | MouseLeaveP
  | ToggleDrawModeP
  | ClearDrawings
  | CaptureP
  | StopSharingP

fun stepP :: "previewP \<Rightarrow> eventP \<Rightarrow> previewP" where
  "stepP s (StartGrantedP n) = startScreenShareP s (Some n)"
| "stepP s StartDeniedP = startScreenShareP s None"
| "stepP s StreamEndedP = onendedP s"
| "stepP s (MouseDownP e rect) = handleMouseDownP s e rect"
| "stepP s (MouseMoveP e rect) = handleMouseMoveP s e rect"
| "stepP s MouseUpP = handleMouseUpP s"
| "stepP s MouseLeaveP = handleMouseUpP s"
| "stepP s ToggleDrawModeP = (if isSharingP s then toggleDrawModeP s else s)"
| "stepP s ClearDrawings = (if isSharingP s \<and> length (paths s) > 0 then clearDrawings s else s)"
| "stepP s CaptureP = s"
| "stepP s StopSharingP = (if isSharingP s then stopSharingP s else s)"

definition runP :: "previewP \<Rightarrow> eventP list \<Rightarrow> previewP" where
  "runP s es = foldl stepP s es"


section \<open>Strings\<close>

text \<open>
  A JavaScript string is modelled by a \<^typ>\<open>string\<close> whose characters are the code units
  below 256. A string is truthy when it is not empty. \<open>trim\<close> removes the white space and
  line terminators at both ends: in this range the code units 9 to 13, 32 and 160.
  \<open>toString\<close> is \<open>Number.prototype.toString\<close> on a non-negative integer such as
  \<open>Date.now()\<close>.
\<close>

definition truthy :: "string \<Rightarrow> bool" where
  "truthy str = (str \<noteq> [])"

definition isWhiteSpace :: "char \<Rightarrow> bool" where
  "isWhiteSpace c = ((of_char c :: nat) \<in> {9, 10, 11, 12, 13, 32, 160})"

definition trim :: "string \<Rightarrow> string" where
  "trim str = rev (dropWhile isWhiteSpace (rev (dropWhile isWhiteSpace str)))"

fun toString :: "nat \<Rightarrow> string" where
  "toString n =
     (if n < 10 then [char_of (48 + n)]
      else toString (n div 10) @ [char_of (48 + n mod 10)])"

declare toString.simps [simp del]


section \<open>The page (src/pages/Index.tsx)\<close>

record HistoryItem =
  item_id :: string
  item_image :: string
  item_solution :: string
  item_timestamp :: nat

record index =
  isLoading :: bool
  solution :: "string option"
  capturedImage :: "string option"
  history :: "HistoryItem list"

definition initialIndex :: index where
  "initialIndex = \<lparr> isLoading = False, solution = None, capturedImage = None, history = [] \<rparr>"

text \<open>
  The outcome of \<open>supabase.functions.invoke\<close>: the call throws an error with a message, or
  it resolves to \<open>{ data, error }\<close>, where \<open>data\<close> is the relay's JSON body (or null), with an
  optional \<open>error\<close> string and a \<open>solution\<close>, and \<open>error\<close> is null or an error with a message.
  \<open>thrown\<close> is what the \<open>catch\<close> block receives: an error with a message, or the
  \<open>TypeError\<close> of reading \<open>data.error\<close> when \<open>data\<close> is null.
\<close>

record relay_data =
  data_error :: "string option"
  data_solution :: string

datatype invoke_result =
    Throws string
  | Resolves "relay_data option" "string option"

datatype thrown = Error string | TypeError

datatype toast = AnswerFound | AnalysisFailed thrown | HistoryCleared

text \<open>The \<open>try\<close> block up to \<open>setSolution\<close>: the solution, or what is thrown.\<close>

definition invoke_outcome :: "invoke_result \<Rightarrow> thrown + string" where
  "invoke_outcome r =
     (case r of
        Throws m \<Rightarrow> Inl (Error m)
      | Resolves data (Some e) \<Rightarrow> Inl (Error e)
      | Resolves None None \<Rightarrow> Inl TypeError
      | Resolves (Some d) None \<Rightarrow>
          (case data_error d of
             Some e \<Rightarrow> if truthy e then Inl (Error e) else Inr (data_solution d)
           | None \<Rightarrow> Inr (data_solution d)))"

text \<open>
  \<open>analyzeMathProblem\<close>, from its call to the end of its \<open>finally\<close> block; \<open>now\<close> is
  \<open>Date.now()\<close>. The result is the state and the toast shown.
\<close>

definition analyzeMathProblem :: "index \<Rightarrow> string \<Rightarrow> nat \<Rightarrow> invoke_result \<Rightarrow> index \<times> toast" where
  "analyzeMathProblem s imageData now r =
     (let s0 = s\<lparr> isLoading := True, solution := None, capturedImage := Some imageData \<rparr>
      in case invoke_outcome r of
           Inr sol \<Rightarrow>
             (let newItem = \<lparr> item_id = toString now, item_image = imageData,
                               item_solution = sol, item_timestamp = now \<rparr>
              in (s0\<lparr> solution := Some sol,
                      history := take 20 (newItem # history s0),
                      isLoading := False \<rparr>, AnswerFound))
         | Inl err \<Rightarrow> (s0\<lparr> isLoading := False \<rparr>, AnalysisFailed err))"

definition handleHistorySelect :: "index \<Rightarrow> HistoryItem \<Rightarrow> index" where
  "handleHistorySelect s item =
     s\<lparr> capturedImage := Some (item_image item), solution := Some (item_solution item) \<rparr>"

definition clearHistory :: "index \<Rightarrow> index \<times> toast" where
  "clearHistory s = (s\<lparr> history := [] \<rparr>, HistoryCleared)"

datatype index_event =
    Analyze string nat invoke_result
  | HistorySelect HistoryItem
  | ClearHistory

fun stepIndex :: "index \<Rightarrow> index_event \<Rightarrow> index" where
  "stepIndex s (Analyze imageData now r) = fst (analyzeMathProblem s imageData now r)"
| "stepIndex s (HistorySelect item) = handleHistorySelect s item"
| "stepIndex s ClearHistory = fst (clearHistory s)"

definition runIndex :: "index \<Rightarrow> index_event list \<Rightarrow> index" where
  "runIndex s es = foldl stepIndex s es"


section \<open>DavidChat\<close>

datatype role = User | Assistant

record Message =
  msg_id :: string
  msg_role :: role
  content :: string
  image :: "string option"

record chat =
  messages :: "Message list"
  input :: string
  isLoadingChat :: bool
  pendingImage :: "string option"

text \<open>
  The outcome of invoking the \<open>david-chat\<close> relay: the call throws, or resolves to
  \<open>{ data, error }\<close> where \<open>data\<close> (or null) has an optional \<open>response\<close> string and
  \<open>error\<close> is null or an error.
\<close>

datatype chat_result =
    ChatThrows
  | ChatResolves "string option option" "string option"

text \<open>The content of the assistant's message appended after the request.\<close>

definition assistantContent :: "chat_result \<Rightarrow> string" where
  "assistantContent r =
     (case r of
        ChatResolves (Some (Some response)) None \<Rightarrow>
          if truthy response then response else ''Sorry, I couldn't process that. Try again!''
      | ChatResolves (Some None) None \<Rightarrow> ''Sorry, I couldn't process that. Try again!''
      | _ \<Rightarrow> ''Oops! Something went wrong. Please try again.'')"

text \<open>
  \<open>sendMessage\<close>, from its call to the end of its \<open>finally\<close> block. \<open>now\<close> and \<open>now'\<close> are
  the two readings of \<open>Date.now()\<close>. The result is the state and the \<open>messages\<close> of the
  request body, \<open>None\<close> when the function returns at its guard without sending.
\<close>

definition userMessage :: "chat \<Rightarrow> nat \<Rightarrow> Message" where
  "userMessage s now =
     \<lparr> msg_id = toString now, msg_role = User,
       content = (if truthy (trim (input s)) then trim (input s) else ''Check this problem''),
       image = (case pendingImage s of
                  Some img \<Rightarrow> if truthy img then Some img else None
                | None \<Rightarrow> None) \<rparr>"

definition sendMessage ::
  "chat \<Rightarrow> nat \<Rightarrow> nat \<Rightarrow> chat_result \<Rightarrow> chat \<times> (role \<times> string \<times> string option) list option" where
  "sendMessage s now now' r =
     (if (\<not> truthy (trim (input s)) \<and>
          \<not> (case pendingImage s of Some img \<Rightarrow> truthy img | None \<Rightarrow> False))
         \<or> isLoadingChat s
      then (s, None)
      else
        (let s1 = s\<lparr> messages := messages s @ [userMessage s now], input := [],
                     pendingImage := None, isLoadingChat := True \<rparr>;
             body = map (\<lambda>m. (msg_role m, content m, image m)) (messages s @ [userMessage s now]);
             assistantMessage = \<lparr> msg_id = toString (now' + 1), msg_role = Assistant,
                                  content = assistantContent r, image = None \<rparr>
         in (s1\<lparr> messages := messages s1 @ [assistantMessage], isLoadingChat := False \<rparr>,
             Some body)))"


section \<open>Notions of the specification\<close>






section \<open>Notions for the frame compositor\<close>

text \<open>
  The calls that take coordinates, and whether all their arguments are finite. (The canvas
  ignores an \<open>arc\<close>, \<open>moveTo\<close> or \<open>lineTo\<close> call that has a non-finite argument.)
\<close>

fun is_point_call :: "cmd \<Rightarrow> bool" where
  "is_point_call (Arc x y r) = True"
| "is_point_call (MoveTo x y) = True"
| "is_point_call (LineTo x y) = True"
| "is_point_call _ = False"

fun finite_args :: "cmd \<Rightarrow> bool" where
  "finite_args (Arc x y r) = (is_finite x \<and> is_finite y \<and> is_finite r)"
| "finite_args (MoveTo x y) = (is_finite x \<and> is_finite y)"
| "finite_args (LineTo x y) = (is_finite x \<and> is_finite y)"
| "finite_args _ = True"

text \<open>
  The scale factors, native size over displayed size, as real numbers; a stored point
  transformed by them; the calls that stroke a polyline through given points, and a circle.
\<close>

definition scaleX_of :: "HTMLVideoElement \<Rightarrow> real" where
  "scaleX_of v = real (videoWidth v) / real (offsetWidth v)"

definition scaleY_of :: "HTMLVideoElement \<Rightarrow> real" where
  "scaleY_of v = real (videoHeight v) / real (offsetHeight v)"

definition transform :: "real \<Rightarrow> real \<Rightarrow> Point \<Rightarrow> jsnum \<times> jsnum" where
  "transform sx sy p = (Fin (px p * sx), Fin (py p * sy))"

fun polyline :: "(jsnum \<times> jsnum) list \<Rightarrow> cmd list" where
  "polyline [] = []"
| "polyline (q # qs) =
     BeginPath # MoveTo (fst q) (snd q) # map (\<lambda>q. LineTo (fst q) (snd q)) qs @ [Stroke]"

definition scaledCircle :: "real \<Rightarrow> real \<Rightarrow> DrawingCircle \<Rightarrow> cmd list" where
  "scaledCircle sx sy c =
     [BeginPath, Arc (Fin (cx c * sx)) (Fin (cy c * sy)) (Fin (radius c * max sx sy)), Stroke]"

text \<open>Every committed freehand path has at least two points.\<close>

definition paths_inv :: "previewP \<Rightarrow> bool" where
  "paths_inv t = (\<forall>pts \<in> set (paths t). 2 \<le> length pts)"


section \<open>Rounding to double precision\<close>

lemma round_even_of_int [simp]: "round_even (of_int n) = n"
  by (simp add: round_even_def)

lemma rnd_0 [simp]: "rnd 0 = 0"
  by (simp add: rnd_def)

lemma rnd_eval:
  assumes "2 powr of_int k \<le> \<bar>x\<bar>" and "\<bar>x\<bar> < 2 powr of_int (k + 1)"
  shows "rnd x = of_int (round_even (x / 2 powr of_int (k - 52))) * 2 powr of_int (k - 52)"
proof -
  have "(0::real) < 2 powr of_int k" by simp
  then have "0 < \<bar>x\<bar>" using assms(1) by (rule less_le_trans)
  then have x: "x \<noteq> 0" by simp
  have "\<lfloor>log 2 \<bar>x\<bar>\<rfloor> = k"
    using assms \<open>0 < \<bar>x\<bar>\<close> by (subst floor_log_eq_powr_iff) (simp_all add: add.commute)
  then show ?thesis using x by (simp add: rnd_def Let_def)
qed

lemma rnd_scaled_int:
  assumes "n \<noteq> 0" and "\<bar>n\<bar> < 2 ^ 53"
  shows "rnd (of_int n * 2 powr of_int e) = of_int n * 2 powr of_int e"
proof -
  define j where "j = \<lfloor>log 2 \<bar>of_int n :: real\<bar>\<rfloor>"
  have n0: "0 < \<bar>of_int n :: real\<bar>" using assms(1) by simp
  have j: "2 powr of_int j \<le> \<bar>of_int n :: real\<bar>" "\<bar>of_int n :: real\<bar> < 2 powr of_int (j + 1)"
    using floor_log_eq_powr_iff [of "\<bar>of_int n :: real\<bar>" 2 j] n0 by (simp_all add: j_def add.commute)
  have "1 \<le> \<bar>n\<bar>" using assms(1) by simp
  then have "(1::real) \<le> of_int \<bar>n\<bar>" by (simp only: of_int_1_le_iff)
  then have "1 \<le> \<bar>of_int n :: real\<bar>" by simp
  then have "0 \<le> log 2 \<bar>of_int n :: real\<bar>" by simp
  then have j0: "0 \<le> j" by (simp add: j_def)
  have "(of_int \<bar>n\<bar> :: real) < of_int (2 ^ 53)"
    using assms(2) by (simp only: of_int_less_iff)
  then have "\<bar>of_int n :: real\<bar> < 2 ^ 53" by simp
  then have "\<bar>of_int n :: real\<bar> < 2 powr 53" by simp
  then have "log 2 \<bar>of_int n :: real\<bar> < 53"
    using n0 by (simp add: log_less_iff)
  then have j52: "j \<le> 52" by (simp add: j_def floor_le_iff)
  let ?x = "of_int n * 2 powr of_int e :: real"
  have ax: "\<bar>?x\<bar> = \<bar>of_int n\<bar> * 2 powr of_int e" by (simp add: abs_mult)
  have b1: "2 powr of_int (j + e) \<le> \<bar>?x\<bar>"
    unfolding ax using j(1) by (simp add: powr_add)
  have b2: "\<bar>?x\<bar> < 2 powr of_int (j + e + 1)"
    unfolding ax using j(2) by (simp add: powr_add)
  have q: "?x / 2 powr of_int (j + e - 52) = of_int (n * 2 ^ nat (52 - j))"
  proof -
    have "?x / 2 powr of_int (j + e - 52)
            = of_int n * (2 powr of_int e / 2 powr of_int (j + e - 52))"
      by (simp only: times_divide_eq_right)
    also have "\<dots> = of_int n * 2 powr (of_int e - of_int (j + e - 52))"
      by (simp only: powr_diff)
    also have "of_int e - of_int (j + e - 52) = (real (nat (52 - j)))"
      using j52 by simp
    also have "2 powr real (nat (52 - j)) = (2::real) ^ nat (52 - j)"
      by (simp add: powr_realpow)
    finally show ?thesis by simp
  qed
  have "rnd ?x = of_int (round_even (?x / 2 powr of_int (j + e - 52))) * 2 powr of_int (j + e - 52)"
    using rnd_eval [OF b1 b2] by simp
  also have "\<dots> = of_int (n * 2 ^ nat (52 - j)) * 2 powr of_int (j + e - 52)"
    unfolding q by (simp only: round_even_of_int)
  also have "\<dots> = ?x"
  proof -
    have "2 powr of_int (j + e - 52) \<noteq> (0::real)" by simp
    then show ?thesis using q by (metis nonzero_divide_eq_eq)
  qed
  finally show ?thesis .
qed

lemma rnd_of_int: "\<bar>n\<bar> < 2 ^ 53 \<Longrightarrow> rnd (of_int n) = of_int n"
  using rnd_scaled_int [of n 0] by (cases "n = 0") simp_all

lemma rnd_numeral [simp]: "numeral w < (2::int) ^ 53 \<Longrightarrow> rnd (numeral w) = numeral w"
  using rnd_of_int [of "numeral w"] by simp

lemma rnd_1 [simp]: "rnd 1 = 1"
  using rnd_of_int [of 1] by simp


lemmas fl_defs = fadd_def fsub_def fdiv_def fpow2_def fsqrt_def


section \<open>The path recorder\<close>





text \<open>
  C3. On pointer release the in-progress shape is appended to the committed set exactly when
  it meets the retention threshold: a circle of radius greater than 10, a freehand path of at
  least 2 points. Otherwise the committed set is unchanged. In both cases the in-progress
  shape is cleared.
\<close>

theorem commit_retention:
  "(currentCircle s = Some c \<and> 10 < radius c \<longrightarrow> circles (handleMouseUp s) = circles s @ [c]) \<and>
   (currentCircle s = Some c \<and> \<not> 10 < radius c \<longrightarrow> circles (handleMouseUp s) = circles s) \<and>
   (currentCircle s = None \<longrightarrow> circles (handleMouseUp s) = circles s) \<and>
   currentCircle (handleMouseUp s) = None \<and>
   (2 \<le> length (currentPath t) \<longrightarrow> paths (handleMouseUpP t) = paths t @ [currentPath t]) \<and>
   (length (currentPath t) < 2 \<longrightarrow> paths (handleMouseUpP t) = paths t) \<and>
   currentPath (handleMouseUpP t) = []"
  by (auto simp add: handleMouseUp_def handleMouseUpP_def Let_def)

theorem commit_retention_witness:
  "circles (handleMouseUp (initial\<lparr> currentCircle := Some \<lparr> cx = 30, cy = 40, radius = 50 \<rparr> \<rparr>))
     = [\<lparr> cx = 30, cy = 40, radius = 50 \<rparr>] \<and>
   circles (handleMouseUp (initial\<lparr> currentCircle := Some \<lparr> cx = 3, cy = 4, radius = 5 \<rparr> \<rparr>)) = [] \<and>
   paths (handleMouseUpP (initialP\<lparr> currentPath := [\<lparr> px = 10, py = 10 \<rparr>, \<lparr> px = 50, py = 10 \<rparr>] \<rparr>))
     = [[\<lparr> px = 10, py = 10 \<rparr>, \<lparr> px = 50, py = 10 \<rparr>]] \<and>
   paths (handleMouseUpP (initialP\<lparr> currentPath := [\<lparr> px = 10, py = 10 \<rparr>] \<rparr>)) = []"
  using
    commit_retention [of "initial\<lparr> currentCircle := Some \<lparr> cx = 30, cy = 40, radius = 50 \<rparr> \<rparr>"
      "\<lparr> cx = 30, cy = 40, radius = 50 \<rparr>"
      "initialP\<lparr> currentPath := [\<lparr> px = 10, py = 10 \<rparr>, \<lparr> px = 50, py = 10 \<rparr>] \<rparr>"]
    commit_retention [of "initial\<lparr> currentCircle := Some \<lparr> cx = 3, cy = 4, radius = 5 \<rparr> \<rparr>"
      "\<lparr> cx = 3, cy = 4, radius = 5 \<rparr>"
      "initialP\<lparr> currentPath := [\<lparr> px = 10, py = 10 \<rparr>] \<rparr>"]
  by (simp add: initial_def initialP_def)














section \<open>The capture session controller\<close>

text \<open>
  C2. Whatever event takes \<open>isSharing\<close> from true to false, the committed shapes (circles,
  or freehand paths) are empty in the state after it; the stop action and the stream-ended
  handler both leave the component not sharing with no committed shape.
\<close>

theorem stop_clears_shapes:
  "(isSharing s \<and> \<not> isSharing (step s ev) \<longrightarrow> circles (step s ev) = []) \<and>
   (isSharingP t \<and> \<not> isSharingP (stepP t evP) \<longrightarrow> paths (stepP t evP) = []) \<and>
   \<not> isSharing (stopSharing s) \<and> circles (stopSharing s) = [] \<and>
   \<not> isSharing (onended s) \<and> circles (onended s) = [] \<and>
   \<not> isSharingP (stopSharingP t) \<and> paths (stopSharingP t) = [] \<and>
   \<not> isSharingP (onendedP t) \<and> paths (onendedP t) = []"
proof -
  have "isSharing s \<and> \<not> isSharing (step s ev) \<longrightarrow> circles (step s ev) = []"
    by (cases ev)
      (auto simp: startScreenShare_def onended_def stopSharing_def handleMouseDown_def
        handleMouseMove_def handleMouseUp_def toggleDrawMode_def clearCircles_def Let_def
        split: option.splits if_splits)
  moreover have "isSharingP t \<and> \<not> isSharingP (stepP t evP) \<longrightarrow> paths (stepP t evP) = []"
    by (cases evP)
      (auto simp: startScreenShareP_def onendedP_def stopSharingP_def handleMouseDownP_def
        handleMouseMoveP_def handleMouseUpP_def toggleDrawModeP_def clearDrawings_def Let_def
        split: option.splits if_splits)
  ultimately show ?thesis
    by (simp add: stopSharing_def onended_def stopSharingP_def onendedP_def Let_def)
qed

theorem stop_clears_shapes_witness:
  "circles (step (initial\<lparr> isSharing := True, stream := Some 1,
                          circles := [\<lparr> cx = 30, cy = 40, radius = 50 \<rparr>] \<rparr>) StopSharing) = [] \<and>
   paths (stepP (initialP\<lparr> isSharingP := True, streamP := Some 1,
                          paths := [[\<lparr> px = 10, py = 10 \<rparr>, \<lparr> px = 50, py = 10 \<rparr>]] \<rparr>) StreamEndedP) = []"
proof -
  have a: "isSharing (initial\<lparr> isSharing := True, stream := Some 1,
                          circles := [\<lparr> cx = 30, cy = 40, radius = 50 \<rparr>] \<rparr>)"
    by simp
  have b: "\<not> isSharing (step (initial\<lparr> isSharing := True, stream := Some 1,
                          circles := [\<lparr> cx = 30, cy = 40, radius = 50 \<rparr>] \<rparr>) StopSharing)"
    by (simp add: stopSharing_def)
  have c: "isSharingP (initialP\<lparr> isSharingP := True, streamP := Some 1,
                          paths := [[\<lparr> px = 10, py = 10 \<rparr>, \<lparr> px = 50, py = 10 \<rparr>]] \<rparr>)"
    by simp
  have d: "\<not> isSharingP (stepP (initialP\<lparr> isSharingP := True, streamP := Some 1,
                          paths := [[\<lparr> px = 10, py = 10 \<rparr>, \<lparr> px = 50, py = 10 \<rparr>]] \<rparr>) StreamEndedP)"
    by (simp add: onendedP_def)
  show ?thesis
    using stop_clears_shapes [of
        "initial\<lparr> isSharing := True, stream := Some 1,
                          circles := [\<lparr> cx = 30, cy = 40, radius = 50 \<rparr>] \<rparr>" StopSharing
        "initialP\<lparr> isSharingP := True, streamP := Some 1,
                          paths := [[\<lparr> px = 10, py = 10 \<rparr>, \<lparr> px = 50, py = 10 \<rparr>]] \<rparr>" StreamEndedP]
      a b c d by blast
qed






section \<open>The output of the frame compositor\<close>

text \<open>
  C6 as stated fails: \<open>captureScreen\<close> never reads the playback state. With a stream active
  and the video element mounted but not yet playing (\<open>readyState\<close> 0, native size 0 by 0),
  \<open>onCapture\<close> is called with the data URL of a canvas of size 0 by 0.
\<close>

theorem capture_before_playback_counterexample:
  "captureScreen (run initial [StartGranted 1])
     (Some \<lparr> videoWidth = 0, videoHeight = 0, offsetWidth = 640, offsetHeight = 360,
             readyState = 0 \<rparr>) True
   = Some \<lparr> width = 0, height = 0, calls = [DrawImage] \<rparr>"
  by (simp add: captureScreen_def run_def initial_def startScreenShare_def)

text \<open>
  C6, amended. \<open>captureScreen\<close> returns without calling \<open>onCapture\<close> exactly when no stream
  is active, the video element is not mounted (\<open>videoRef.current\<close> is null) or the canvas
  gives no 2D context; in every other case, whatever the playback state of the video,
  \<open>onCapture\<close> is called. No branch throws.
\<close>

theorem capture_noop_iff:
  "(captureScreen s videoRef has_ctx = None \<longleftrightarrow>
      videoRef = None \<or> stream s = None \<or> \<not> has_ctx) \<and>
   (captureScreenP t videoRef has_ctx = None \<longleftrightarrow>
      videoRef = None \<or> streamP t = None \<or> \<not> has_ctx)"
  by (simp add: captureScreen_def captureScreenP_def split: option.splits)

theorem capture_noop_iff_witness:
  "captureScreen initial
     (Some \<lparr> videoWidth = 1280, videoHeight = 720, offsetWidth = 640, offsetHeight = 360,
             readyState = 4 \<rparr>) True = None \<and>
   captureScreenP (initialP\<lparr> streamP := Some 1 \<rparr>) None True = None"
proof -
  have "stream initial = None" by (simp add: initial_def)
  then show ?thesis
    using capture_noop_iff [of initial
        "Some \<lparr> videoWidth = 1280, videoHeight = 720, offsetWidth = 640, offsetHeight = 360,
             readyState = 4 \<rparr>" True "initialP\<lparr> streamP := Some 1 \<rparr>"]
      capture_noop_iff [of initial None True "initialP\<lparr> streamP := Some 1 \<rparr>"]
    by blast
qed

lemma js_div_zero: "\<not> is_finite (js_div a 0)"
  by (simp add: js_div_def)

lemma js_mul_nonfinite: "\<not> is_finite k \<Longrightarrow> \<not> is_finite (js_mul a k)"
  by (cases k) auto

lemma strokeCircle_nonfinite:
  assumes "\<not> is_finite sx \<or> \<not> is_finite sy" "c \<in> set (strokeCircle sx sy circle)" "is_point_call c"
  shows "\<not> finite_args c"
  using assms by (auto simp: strokeCircle_def js_mul_nonfinite)

lemma strokePath_nonfinite:
  assumes "\<not> is_finite sx \<or> \<not> is_finite sy" "c \<in> set (strokePath sx sy pts)" "is_point_call c"
  shows "\<not> finite_args c"
  using assms by (auto simp: strokePath_def js_mul_nonfinite split: if_splits)

lemma scale_nonfinite:
  assumes "offsetWidth v = 0 \<or> offsetHeight v = 0"
  shows "\<not> is_finite (js_div (real (videoWidth v)) (real (offsetWidth v))) \<or>
         \<not> is_finite (js_div (real (videoHeight v)) (real (offsetHeight v)))"
  using assms by (auto simp: js_div_zero)

text \<open>
  C1 as stated fails: the division is not guarded. With a displayed size of 0 by 0 and one
  committed circle, the scale factors are \<open>Infinity\<close> and the circle's \<open>arc\<close> call is made.
\<close>

theorem capture_zero_display_counterexample:
  "captureScreen
     (initial\<lparr> isSharing := True, stream := Some 1,
               circles := [\<lparr> cx = 100, cy = 100, radius = 50 \<rparr>] \<rparr>)
     (Some \<lparr> videoWidth = 1280, videoHeight = 720, offsetWidth = 0, offsetHeight = 0,
             readyState = 4 \<rparr>) True
   = Some \<lparr> width = 1280, height = 720,
            calls = [DrawImage, StrokeStyle ''#00d4ff'', LineWidth 4, SetLineDash [8, 8],
                     BeginPath, Arc PInf PInf PInf, Stroke] \<rparr>"
  by (simp add: captureScreen_def initial_def strokeCircle_def js_div_def)

lemma point_calls_strokeCircle:
  "length (filter is_point_call (concat (map (strokeCircle sx sy) cs))) = length cs"
  by (induction cs) (simp_all add: strokeCircle_def)

lemma point_calls_strokePath:
  "length (filter is_point_call (strokePath sx sy pts)) = (if 2 \<le> length pts then length pts else 0)"
proof -
  have "filter is_point_call (map (\<lambda>p. LineTo (js_mul (px p) sx) (js_mul (py p) sy)) ps)
          = map (\<lambda>p. LineTo (js_mul (px p) sx) (js_mul (py p) sy)) ps" for ps :: "Point list"
    by (induction ps) simp_all
  then show ?thesis
    by (cases pts) (auto simp: strokePath_def Suc_le_eq)
qed

lemma point_calls_strokePaths:
  "length (filter is_point_call (concat (map (strokePath sx sy) ps)))
     = sum_list (map length (filter (\<lambda>pts. 2 \<le> length pts) ps))"
  by (induction ps) (simp_all add: point_calls_strokePath)

text \<open>
  C1, amended. With a stream active, the video element mounted and a 2D context, a
  displayed width or height of 0 does not stop the capture: the frame is drawn on a canvas of
  the native size and exported. The division is made without a guard whenever a shape is
  committed, and a scale factor is then not finite. The shapes are skipped only when none is
  committed; otherwise the calls of the loop body are made for every committed shape with
  these scale factors: one \<open>arc\<close> call for every committed circle, one \<open>moveTo\<close> or \<open>lineTo\<close>
  call for every point of every committed path of at least two points, and each of these
  calls has a non-finite argument.
\<close>

theorem capture_zero_display:
  assumes "offsetWidth v = 0 \<or> offsetHeight v = 0" and "stream s \<noteq> None" and "streamP t \<noteq> None"
  shows "(\<not> is_finite (js_div (real (videoWidth v)) (real (offsetWidth v))) \<or>
          \<not> is_finite (js_div (real (videoHeight v)) (real (offsetHeight v)))) \<and>
         (\<exists>cs. captureScreen s (Some v) True
            = Some \<lparr> width = videoWidth v, height = videoHeight v, calls = DrawImage # cs \<rparr> \<and>
          cs = (if circles s = [] then []
                else [StrokeStyle ''#00d4ff'', LineWidth 4, SetLineDash [8, 8]] @
                     concat (map (strokeCircle
                                    (js_div (real (videoWidth v)) (real (offsetWidth v)))
                                    (js_div (real (videoHeight v)) (real (offsetHeight v))))
                               (circles s))) \<and>
          (cs = [] \<longleftrightarrow> circles s = []) \<and>
          length (filter is_point_call cs) = length (circles s) \<and>
          (\<forall>c \<in> set cs. is_point_call c \<longrightarrow> \<not> finite_args c)) \<and>
         (\<exists>cs. captureScreenP t (Some v) True
            = Some \<lparr> width = videoWidth v, height = videoHeight v, calls = DrawImage # cs \<rparr> \<and>
          cs = (if paths t = [] then []
                else [StrokeStyle ''#00d4ff'', LineWidth 4, LineCap ''round'', LineJoin ''round''] @
                     concat (map (strokePath
                                    (js_div (real (videoWidth v)) (real (offsetWidth v)))
                                    (js_div (real (videoHeight v)) (real (offsetHeight v))))
                               (paths t))) \<and>
          (cs = [] \<longleftrightarrow> paths t = []) \<and>
          length (filter is_point_call cs)
            = sum_list (map length (filter (\<lambda>pts. 2 \<le> length pts) (paths t))) \<and>
          (\<forall>c \<in> set cs. is_point_call c \<longrightarrow> \<not> finite_args c))"
proof -
  let ?sx = "js_div (real (videoWidth v)) (real (offsetWidth v))"
  let ?sy = "js_div (real (videoHeight v)) (real (offsetHeight v))"
  let ?cs = "if circles s = [] then []
             else [StrokeStyle ''#00d4ff'', LineWidth 4, SetLineDash [8, 8]] @
                  concat (map (strokeCircle ?sx ?sy) (circles s))"
  let ?ps = "if paths t = [] then []
             else [StrokeStyle ''#00d4ff'', LineWidth 4, LineCap ''round'', LineJoin ''round''] @
                  concat (map (strokePath ?sx ?sy) (paths t))"
  note n = scale_nonfinite [OF assms(1)]
  have c1: "captureScreen s (Some v) True
              = Some \<lparr> width = videoWidth v, height = videoHeight v, calls = DrawImage # ?cs \<rparr>"
    using assms(2) by (simp add: captureScreen_def Let_def)
  have c2: "(?cs = [] \<longleftrightarrow> circles s = [])"
    by simp
  have c3: "length (filter is_point_call ?cs) = length (circles s)"
    by (simp add: point_calls_strokeCircle)
  have c4: "\<forall>c \<in> set ?cs. is_point_call c \<longrightarrow> \<not> finite_args c"
    using strokeCircle_nonfinite [OF n] by auto
  have p1: "captureScreenP t (Some v) True
              = Some \<lparr> width = videoWidth v, height = videoHeight v, calls = DrawImage # ?ps \<rparr>"
    using assms(3) by (simp add: captureScreenP_def Let_def)
  have p2: "(?ps = [] \<longleftrightarrow> paths t = [])"
    by simp
  have p3: "length (filter is_point_call ?ps)
              = sum_list (map length (filter (\<lambda>pts. 2 \<le> length pts) (paths t)))"
    by (simp add: point_calls_strokePaths)
  have p4: "\<forall>c \<in> set ?ps. is_point_call c \<longrightarrow> \<not> finite_args c"
    using strokePath_nonfinite [OF n] by auto
  show ?thesis
    using n c1 c2 c3 c4 p1 p2 p3 p4 by blast
qed

theorem capture_zero_display_witness:
  "(\<exists>cs. captureScreen
            (initial\<lparr> isSharing := True, stream := Some 2,
                      circles := [\<lparr> cx = 100, cy = 100, radius = 50 \<rparr>] \<rparr>)
            (Some \<lparr> videoWidth = 1280, videoHeight = 720, offsetWidth = 0, offsetHeight = 360,
                    readyState = 4 \<rparr>) True
          = Some \<lparr> width = 1280, height = 720, calls = DrawImage # cs \<rparr> \<and>
        length (filter is_point_call cs) = 1 \<and>
        (\<forall>c \<in> set cs. is_point_call c \<longrightarrow> \<not> finite_args c)) \<and>
   (\<exists>cs. captureScreenP (initialP\<lparr> isSharingP := True, streamP := Some 2 \<rparr>)
            (Some \<lparr> videoWidth = 1280, videoHeight = 720, offsetWidth = 0, offsetHeight = 360,
                    readyState = 4 \<rparr>) True
          = Some \<lparr> width = 1280, height = 720, calls = DrawImage # cs \<rparr> \<and> cs = [])"
proof -
  let ?v = "\<lparr> videoWidth = 1280, videoHeight = 720, offsetWidth = 0, offsetHeight = 360,
              readyState = 4 \<rparr>"
  let ?s = "initial\<lparr> isSharing := True, stream := Some 2,
                     circles := [\<lparr> cx = 100, cy = 100, radius = 50 \<rparr>] \<rparr>"
  let ?t = "initialP\<lparr> isSharingP := True, streamP := Some 2 \<rparr>"
  have a: "offsetWidth ?v = 0 \<or> offsetHeight ?v = 0"
    and b: "stream ?s \<noteq> None" and c: "streamP ?t \<noteq> None"
    by simp_all
  have d: "length (circles ?s) = 1" and e: "paths ?t = []"
    and w: "videoWidth ?v = 1280" and h: "videoHeight ?v = 720"
    by (simp_all add: initialP_def)
  from capture_zero_display [OF a b c] obtain cs ps where
    1: "captureScreen ?s (Some ?v) True
          = Some \<lparr> width = videoWidth ?v, height = videoHeight ?v, calls = DrawImage # cs \<rparr>"
      "length (filter is_point_call cs) = length (circles ?s)"
      "\<forall>c \<in> set cs. is_point_call c \<longrightarrow> \<not> finite_args c"
    and 2: "captureScreenP ?t (Some ?v) True
          = Some \<lparr> width = videoWidth ?v, height = videoHeight ?v, calls = DrawImage # ps \<rparr>"
      "(ps = [] \<longleftrightarrow> paths ?t = [])"
    by blast
  show ?thesis
    using 1 2 unfolding d e w h by blast
qed

lemma paths_inv_step: "paths_inv t \<Longrightarrow> paths_inv (stepP t ev)"
  by (cases ev)
    (auto simp: paths_inv_def startScreenShareP_def onendedP_def stopSharingP_def
      handleMouseDownP_def handleMouseMoveP_def handleMouseUpP_def toggleDrawModeP_def
      clearDrawings_def Let_def split: option.splits if_splits)

lemma paths_inv_run: "paths_inv (runP initialP es)"
proof (induction es rule: rev_induct)
  case Nil
  show ?case by (simp add: paths_inv_def runP_def initialP_def)
next
  case (snoc ev es)
  then show ?case using paths_inv_step [of "runP initialP es" ev] by (simp add: runP_def)
qed

lemma strokeCircle_finite:
  "0 < ow \<Longrightarrow> 0 < oh \<Longrightarrow>
   strokeCircle (js_div vw ow) (js_div vh oh) c = scaledCircle (vw / ow) (vh / oh) c"
  by (simp add: strokeCircle_def scaledCircle_def js_div_def)

lemma strokePath_finite:
  assumes "0 < ow" "0 < oh" "2 \<le> length pts"
  shows "strokePath (js_div vw ow) (js_div vh oh) pts
           = polyline (map (transform (vw / ow) (vh / oh)) pts)"
proof (cases pts)
  case Nil
  with assms show ?thesis by simp
next
  case (Cons p ps)
  with assms show ?thesis
    by (auto simp add: strokePath_def js_div_def transform_def comp_def)
qed

text \<open>
  C4 as stated fails in its example: the widths fix only \<open>scaleX\<close>. With a displayed size
  of 640 by 480 and a native size of 1280 by 480, \<open>scaleY\<close> is 1 and the path recorded from
  (100, 100) is stroked from (200, 100).
\<close>

theorem capture_scale_example_counterexample:
  "captureScreenP
     (runP initialP
        [StartGrantedP 1, ToggleDrawModeP,
         MouseDownP \<lparr> clientX = 100, clientY = 100 \<rparr> (Some \<lparr> rect_left = 0, rect_top = 0 \<rparr>),
         MouseMoveP \<lparr> clientX = 150, clientY = 100 \<rparr> (Some \<lparr> rect_left = 0, rect_top = 0 \<rparr>),
         MouseUpP])
     (Some \<lparr> videoWidth = 1280, videoHeight = 480, offsetWidth = 640, offsetHeight = 480,
             readyState = 4 \<rparr>) True
   = Some \<lparr> width = 1280, height = 480,
            calls = [DrawImage, StrokeStyle ''#00d4ff'', LineWidth 4, LineCap ''round'',
                     LineJoin ''round'', BeginPath, MoveTo (Fin 200) (Fin 100),
                     LineTo (Fin 300) (Fin 100), Stroke] \<rparr>"
  by (simp add: captureScreenP_def runP_def initialP_def startScreenShareP_def
      toggleDrawModeP_def handleMouseDownP_def handleMouseMoveP_def handleMouseUpP_def
      strokePath_def js_div_def Let_def fl_defs)

text \<open>
  C4, amended. With a stream active, the video element mounted with a non-zero displayed
  size and a 2D context, the capture draws the frame and then strokes every committed shape
  with each stored coordinate \<open>(x, y)\<close> transformed to \<open>(x * scaleX, y * scaleY)\<close>, where
  \<open>scaleX = videoWidth / displayedWidth\<close> and \<open>scaleY = videoHeight / displayedHeight\<close>, and
  with the radius of a circle multiplied by \<open>max scaleX scaleY\<close>. (For the freehand variant the
  committed paths are those of a state reached from the initial one.) The example needs
  the heights as well: with a displayed size of 640 by 360 and a native size of 1280 by 720,
  a point recorded at (100, 100) is stroked at (200, 200).
\<close>

theorem capture_scales_shapes:
  assumes "0 < offsetWidth v" and "0 < offsetHeight v"
    and "stream s \<noteq> None" and "t = runP initialP es" and "streamP t \<noteq> None"
  shows "captureScreen s (Some v) True
           = Some \<lparr> width = videoWidth v, height = videoHeight v,
                    calls = DrawImage #
                      (if circles s = [] then []
                       else [StrokeStyle ''#00d4ff'', LineWidth 4, SetLineDash [8, 8]] @
                            concat (map (scaledCircle (scaleX_of v) (scaleY_of v)) (circles s))) \<rparr> \<and>
         captureScreenP t (Some v) True
           = Some \<lparr> width = videoWidth v, height = videoHeight v,
                    calls = DrawImage #
                      (if paths t = [] then []
                       else [StrokeStyle ''#00d4ff'', LineWidth 4, LineCap ''round'', LineJoin ''round''] @
                            concat (map (\<lambda>pts. polyline (map (transform (scaleX_of v) (scaleY_of v)) pts))
                                      (paths t))) \<rparr>"
proof -
  have ow: "0 < real (offsetWidth v)" and oh: "0 < real (offsetHeight v)"
    using assms(1,2) by simp_all
  have c: "map (strokeCircle (js_div (real (videoWidth v)) (real (offsetWidth v)))
                  (js_div (real (videoHeight v)) (real (offsetHeight v)))) (circles s)
           = map (scaledCircle (scaleX_of v) (scaleY_of v)) (circles s)"
    by (simp add: strokeCircle_finite [OF ow oh] scaleX_of_def scaleY_of_def)
  have "paths_inv t"
    using paths_inv_run assms(4) by simp
  then have p: "map (strokePath (js_div (real (videoWidth v)) (real (offsetWidth v)))
                  (js_div (real (videoHeight v)) (real (offsetHeight v)))) (paths t)
           = map (\<lambda>pts. polyline (map (transform (scaleX_of v) (scaleY_of v)) pts)) (paths t)"
    by (simp add: strokePath_finite [OF ow oh] scaleX_of_def scaleY_of_def paths_inv_def)
  show ?thesis
    using assms(3,5) by (simp add: captureScreen_def captureScreenP_def Let_def c p)
qed

theorem capture_scales_shapes_witness:
  "captureScreen
     (initial\<lparr> isSharing := True, stream := Some 1,
               circles := [\<lparr> cx = 100, cy = 100, radius = 30 \<rparr>] \<rparr>)
     (Some \<lparr> videoWidth = 1280, videoHeight = 720, offsetWidth = 640, offsetHeight = 360,
             readyState = 4 \<rparr>) True
   = Some \<lparr> width = 1280, height = 720,
            calls = [DrawImage, StrokeStyle ''#00d4ff'', LineWidth 4, SetLineDash [8, 8],
                     BeginPath, Arc (Fin 200) (Fin 200) (Fin 60), Stroke] \<rparr> \<and>
   captureScreenP
     (runP initialP
        [StartGrantedP 1, ToggleDrawModeP,
         MouseDownP \<lparr> clientX = 100, clientY = 100 \<rparr> (Some \<lparr> rect_left = 0, rect_top = 0 \<rparr>),
         MouseMoveP \<lparr> clientX = 150, clientY = 100 \<rparr> (Some \<lparr> rect_left = 0, rect_top = 0 \<rparr>),
         MouseUpP])
     (Some \<lparr> videoWidth = 1280, videoHeight = 720, offsetWidth = 640, offsetHeight = 360,
             readyState = 4 \<rparr>) True
   = Some \<lparr> width = 1280, height = 720,
            calls = [DrawImage, StrokeStyle ''#00d4ff'', LineWidth 4, LineCap ''round'',
                     LineJoin ''round'', BeginPath, MoveTo (Fin 200) (Fin 200),
                     LineTo (Fin 300) (Fin 200), Stroke] \<rparr>"
proof -
  have r: "runP initialP
        [StartGrantedP 1, ToggleDrawModeP,
         MouseDownP \<lparr> clientX = 100, clientY = 100 \<rparr> (Some \<lparr> rect_left = 0, rect_top = 0 \<rparr>),
         MouseMoveP \<lparr> clientX = 150, clientY = 100 \<rparr> (Some \<lparr> rect_left = 0, rect_top = 0 \<rparr>),
         MouseUpP]
      = \<lparr> isSharingP = True, streamP = Some 1, isDrawingP = False,
          paths = [[\<lparr> px = 100, py = 100 \<rparr>, \<lparr> px = 150, py = 100 \<rparr>]], currentPath = [],
          drawModeP = True \<rparr>"
    by (simp add: runP_def initialP_def startScreenShareP_def toggleDrawModeP_def
        handleMouseDownP_def handleMouseMoveP_def handleMouseUpP_def Let_def fl_defs)
  have p: "paths (runP initialP
        [StartGrantedP 1, ToggleDrawModeP,
         MouseDownP \<lparr> clientX = 100, clientY = 100 \<rparr> (Some \<lparr> rect_left = 0, rect_top = 0 \<rparr>),
         MouseMoveP \<lparr> clientX = 150, clientY = 100 \<rparr> (Some \<lparr> rect_left = 0, rect_top = 0 \<rparr>),
         MouseUpP]) = [[\<lparr> px = 100, py = 100 \<rparr>, \<lparr> px = 150, py = 100 \<rparr>]]"
    and q: "streamP (runP initialP
        [StartGrantedP 1, ToggleDrawModeP,
         MouseDownP \<lparr> clientX = 100, clientY = 100 \<rparr> (Some \<lparr> rect_left = 0, rect_top = 0 \<rparr>),
         MouseMoveP \<lparr> clientX = 150, clientY = 100 \<rparr> (Some \<lparr> rect_left = 0, rect_top = 0 \<rparr>),
         MouseUpP]) \<noteq> None"
    unfolding r by simp_all
  have c: "stream (initial\<lparr> isSharing := True, stream := Some 1,
               circles := [\<lparr> cx = 100, cy = 100, radius = 30 \<rparr>] \<rparr>) \<noteq> None \<and>
           circles (initial\<lparr> isSharing := True, stream := Some 1,
               circles := [\<lparr> cx = 100, cy = 100, radius = 30 \<rparr>] \<rparr>)
             = [\<lparr> cx = 100, cy = 100, radius = 30 \<rparr>]"
    by simp
  show ?thesis
    using capture_scales_shapes [of
        "\<lparr> videoWidth = 1280, videoHeight = 720, offsetWidth = 640, offsetHeight = 360,
           readyState = 4 \<rparr>"
        "initial\<lparr> isSharing := True, stream := Some 1,
               circles := [\<lparr> cx = 100, cy = 100, radius = 30 \<rparr>] \<rparr>"
        "runP initialP
        [StartGrantedP 1, ToggleDrawModeP,
         MouseDownP \<lparr> clientX = 100, clientY = 100 \<rparr> (Some \<lparr> rect_left = 0, rect_top = 0 \<rparr>),
         MouseMoveP \<lparr> clientX = 150, clientY = 100 \<rparr> (Some \<lparr> rect_left = 0, rect_top = 0 \<rparr>),
         MouseUpP]"
        "[StartGrantedP 1, ToggleDrawModeP,
         MouseDownP \<lparr> clientX = 100, clientY = 100 \<rparr> (Some \<lparr> rect_left = 0, rect_top = 0 \<rparr>),
         MouseMoveP \<lparr> clientX = 150, clientY = 100 \<rparr> (Some \<lparr> rect_left = 0, rect_top = 0 \<rparr>),
         MouseUpP]"] q c
    unfolding p by (simp add: scaleX_of_def scaleY_of_def scaledCircle_def transform_def)
qed

section \<open>The history of the page\<close>

lemma stepIndex_length:
  "length (history s) \<le> 20 \<Longrightarrow> length (history (stepIndex s ev)) \<le> 20"
  by (cases ev)
    (auto simp: analyzeMathProblem_def handleHistorySelect_def clearHistory_def Let_def
      split: sum.splits)

lemma runIndex_length: "length (history (runIndex initialIndex es)) \<le> 20"
proof (induction es rule: rev_induct)
  case Nil
  show ?case by (simp add: runIndex_def initialIndex_def)
next
  case (snoc ev es)
  then show ?case
    using stepIndex_length [of "runIndex initialIndex es" ev] by (simp add: runIndex_def)
qed

text \<open>
  C8. After a successful analysis the history is the new item followed by the earlier
  items, cut to 20 entries, so the new item is first; and in every state reached from the
  initial one the history has at most 20 items.
\<close>

theorem history_capped:
  "(r = Resolves (Some d) None \<and> (\<forall>e. data_error d = Some e \<longrightarrow> \<not> truthy e) \<longrightarrow>
      history (fst (analyzeMathProblem s imageData now r))
        = take 20 (\<lparr> item_id = toString now, item_image = imageData,
                      item_solution = data_solution d, item_timestamp = now \<rparr> # history s) \<and>
      hd (history (fst (analyzeMathProblem s imageData now r)))
        = \<lparr> item_id = toString now, item_image = imageData,
            item_solution = data_solution d, item_timestamp = now \<rparr> \<and>
      length (history (fst (analyzeMathProblem s imageData now r))) \<le> 20) \<and>
   length (history (runIndex initialIndex es)) \<le> 20"
  by (auto simp: runIndex_length analyzeMathProblem_def invoke_outcome_def Let_def
      split: option.splits)

theorem history_capped_witness:
  "history (fst (analyzeMathProblem initialIndex ''data:image/png;base64,AAAA'' 7
      (Resolves (Some \<lparr> data_error = None, data_solution = ''x = 2'' \<rparr>) None)))
   = [\<lparr> item_id = ''7'', item_image = ''data:image/png;base64,AAAA'',
        item_solution = ''x = 2'', item_timestamp = 7 \<rparr>]"
proof -
  have t: "toString 7 = ''7''"
    by code_simp
  show ?thesis
    using history_capped [where r = "Resolves (Some \<lparr> data_error = None, data_solution = ''x = 2'' \<rparr>) None"
        and d = "\<lparr> data_error = None, data_solution = ''x = 2'' \<rparr>" and s = initialIndex
        and imageData = "''data:image/png;base64,AAAA''" and now = 7 and es = "[]"]
    by (simp add: initialIndex_def t)
qed

text \<open>
  C9 as stated fails: the error field of the response is tested for truthiness. A response
  that carries the error field \<open>""\<close> is taken as a success: the solution is set and the
  history grows.
\<close>

theorem analyze_empty_error_counterexample:
  "history (fst (analyzeMathProblem initialIndex ''data:image/png;base64,AAAA'' 7
      (Resolves (Some \<lparr> data_error = Some [], data_solution = ''x = 2'' \<rparr>) None)))
     \<noteq> history initialIndex \<and>
   length (history (fst (analyzeMathProblem initialIndex ''data:image/png;base64,AAAA'' 7
      (Resolves (Some \<lparr> data_error = Some [], data_solution = ''x = 2'' \<rparr>) None)))) = 1 \<and>
   solution (fst (analyzeMathProblem initialIndex ''data:image/png;base64,AAAA'' 7
      (Resolves (Some \<lparr> data_error = Some [], data_solution = ''x = 2'' \<rparr>) None)))
     = Some ''x = 2''"
  by (simp add: analyzeMathProblem_def invoke_outcome_def truthy_def initialIndex_def Let_def)

text \<open>
  C9, amended. When the relay invocation throws, or resolves with an error, or its response
  carries a non-empty error field (a truthy \<open>data.error\<close>), \<open>analyzeMathProblem\<close> leaves the
  history list as it was and the solution is null afterwards, whatever the history was.
\<close>

theorem analyze_failure_atomic:
  assumes "(\<exists>m. r = Throws m) \<or> (\<exists>d e. r = Resolves d (Some e)) \<or>
           (\<exists>d e. r = Resolves (Some d) None \<and> data_error d = Some e \<and> truthy e)"
  shows "history (fst (analyzeMathProblem s imageData now r)) = history s \<and>
         solution (fst (analyzeMathProblem s imageData now r)) = None"
  using assms
  by (auto simp: analyzeMathProblem_def invoke_outcome_def Let_def split: option.splits)

theorem analyze_failure_atomic_witness:
  "history (fst (analyzeMathProblem
      (initialIndex\<lparr> solution := Some ''x = 2'',
         history := [\<lparr> item_id = ''7'', item_image = ''data:,'', item_solution = ''x = 2'',
                      item_timestamp = 7 \<rparr>] \<rparr>)
      ''data:image/png;base64,AAAA'' 8
      (Resolves (Some \<lparr> data_error = Some ''Rate limit exceeded'', data_solution = [] \<rparr>) None)))
   = [\<lparr> item_id = ''7'', item_image = ''data:,'', item_solution = ''x = 2'', item_timestamp = 7 \<rparr>] \<and>
   solution (fst (analyzeMathProblem
      (initialIndex\<lparr> solution := Some ''x = 2'',
         history := [\<lparr> item_id = ''7'', item_image = ''data:,'', item_solution = ''x = 2'',
                      item_timestamp = 7 \<rparr>] \<rparr>)
      ''data:image/png;base64,AAAA'' 8
      (Resolves (Some \<lparr> data_error = Some ''Rate limit exceeded'', data_solution = [] \<rparr>) None)))
   = None"
  using analyze_failure_atomic [where
      r = "Resolves (Some \<lparr> data_error = Some ''Rate limit exceeded'', data_solution = [] \<rparr>) None"
      and s = "initialIndex\<lparr> solution := Some ''x = 2'',
         history := [\<lparr> item_id = ''7'', item_image = ''data:,'', item_solution = ''x = 2'',
                      item_timestamp = 7 \<rparr>] \<rparr>"
      and imageData = "''data:image/png;base64,AAAA''" and now = 8]
  by (simp add: truthy_def)

section \<open>The chat\<close>

text \<open>
  C10. \<open>sendMessage\<close> changes nothing and sends nothing when the trimmed input is empty and no
  image is pending (\<open>pendingImage\<close> is null, or the empty string, which is as falsy), or when a
  request is in flight. When an image (a non-empty data URL) is
  pending, the trimmed input is empty and no request is in flight, the user message that is
  appended and sent has the content "Check this problem" and carries the image.
\<close>

theorem sendMessage_guard:
  "((trim (input s) = [] \<and> (pendingImage s = None \<or> pendingImage s = Some [])) \<or>
     isLoadingChat s \<longrightarrow>
      sendMessage s now now' r = (s, None)) \<and>
   (trim (input s) = [] \<and> pendingImage s = Some img \<and> truthy img \<and> \<not> isLoadingChat s \<longrightarrow>
      snd (sendMessage s now now' r)
        = Some (map (\<lambda>m. (msg_role m, content m, image m)) (messages s) @
                [(User, ''Check this problem'', Some img)]) \<and>
      messages (fst (sendMessage s now now' r))
        = messages s @
          [\<lparr> msg_id = toString now, msg_role = User, content = ''Check this problem'',
             image = Some img \<rparr>,
           \<lparr> msg_id = toString (now' + 1), msg_role = Assistant, content = assistantContent r,
             image = None \<rparr>])"
  by (auto simp: sendMessage_def userMessage_def truthy_def Let_def split: option.splits)

theorem sendMessage_guard_witness:
  "sendMessage \<lparr> messages = [], input = ''  '', isLoadingChat = False, pendingImage = None \<rparr>
     7 8 ChatThrows
   = (\<lparr> messages = [], input = ''  '', isLoadingChat = False, pendingImage = None \<rparr>, None) \<and>
   snd (sendMessage \<lparr> messages = [], input = ''  '', isLoadingChat = False,
                      pendingImage = Some ''data:image/png;base64,AAAA'' \<rparr> 7 8 ChatThrows)
   = Some [(User, ''Check this problem'', Some ''data:image/png;base64,AAAA'')]"
proof -
  have t: "trim ''  '' = []"
    by (simp add: trim_def isWhiteSpace_def)
  show ?thesis
    using
      sendMessage_guard [where
        s = "\<lparr> messages = [], input = ''  '', isLoadingChat = False, pendingImage = None \<rparr>"
        and now = 7 and now' = 8 and r = ChatThrows and img = "[]"]
      sendMessage_guard [where
        s = "\<lparr> messages = [], input = ''  '', isLoadingChat = False,
           pendingImage = Some ''data:image/png;base64,AAAA'' \<rparr>"
        and img = "''data:image/png;base64,AAAA''" and now = 7 and now' = 8 and r = ChatThrows]
    by (simp add: t truthy_def)
qed

end
